theory Spec2Isabelle
  imports Complex_Main "HOL-Library.AList"
begin

section \<open>Data model of \<^verbatim>\<open>emby_content_watchdog.py\<close>\<close>

text \<open>
  A compiled pattern is used in one way only, \<^verbatim>\<open>rule["pattern"].search(line)\<close>, whose
  result is tested for truth. It is modelled by that test.
\<close>

type_synonym regex = "string \<Rightarrow> bool"

text \<open>
  \<^verbatim>\<open>CompiledRule\<close>: the dictionary built by \<^verbatim>\<open>load_rules\<close>, with its five keys. The
  rate-limit cache is declared \<^verbatim>\<open>Dict[Tuple[str, str], float]\<close>, so rule names are strings.
\<close>

record rule =
  name :: string
  pattern :: regex
  action :: string
  rate_limit_seconds :: int
  level :: string

text \<open>
  \<^verbatim>\<open>recent_refresh\<close>: a Python dictionary keyed by \<^verbatim>\<open>(item_id, rule_name)\<close>. It is an
  association list in insertion order whose keys are distinct; assigning to a key that is
  present keeps its position, assigning to a new key appends, as \<open>AList.update\<close> does.
  Timestamps are the readings of \<^verbatim>\<open>time.time()\<close>, taken as exact real numbers.
\<close>

type_synonym cache = "((string \<times> string) \<times> real) list"

text \<open>
  Values read from the JSON rule file that the code converts itself (\<^verbatim>\<open>int(...)\<close>,
  \<^verbatim>\<open>bool(...)\<close>). A JSON number with a fraction or an exponent is a \<open>JFloat\<close>, read as the
  exact number it denotes (\<^verbatim>\<open>NaN\<close> and \<^verbatim>\<open>Infinity\<close> are not represented).
\<close>

datatype json =
    JNull
  | JBool bool
  | JInt int
  | JFloat real
  | JStr string
  | JList "json list"
  | JDict "(string \<times> json) list"

text \<open>The exception classes (all subclasses of \<^verbatim>\<open>Exception\<close>) that the modelled code can meet.\<close>

datatype exn = KeyError | TypeError | ValueError | RegexError | OSError

text \<open>
  One element of \<^verbatim>\<open>cfg["rules"]\<close>: a JSON object, seen through the five keys that
  \<^verbatim>\<open>load_rules\<close> reads. A key may be absent. When present, \<^verbatim>\<open>name\<close>, \<^verbatim>\<open>pattern\<close>,
  \<^verbatim>\<open>action\<close> and \<^verbatim>\<open>level\<close> are strings; \<^verbatim>\<open>rate_limit_seconds\<close> is any JSON value, since the
  code converts it with \<^verbatim>\<open>int\<close>.
\<close>

record entry =
  e_name :: "string option"
  e_pattern :: "string option"
  e_action :: "string option"
  e_rate_limit_seconds :: "json option"
  e_level :: "string option"

text \<open>The \<^verbatim>\<open>global\<close> settings: a JSON object, keys in order.\<close>

type_synonym global_cfg = "(string \<times> json) list"

text \<open>The parsed rule file: the values under \<^verbatim>\<open>"rules"\<close> and \<^verbatim>\<open>"global"\<close>, when present.\<close>

record config =
  cfg_rules :: "entry list option"
  cfg_global :: "global_cfg option"

text \<open>What opening \<^verbatim>\<open>RULES_PATH\<close> and \<^verbatim>\<open>json.load\<close> give.\<close>

datatype source = RulesFileNotFound | RulesFileUnreadable string | RulesFile config

text \<open>
  The records of the service log: the event of each \<^verbatim>\<open>write_log\<close> call with the details
  that identify it. The time stamp of a record, the file name and the line snippet are left
  out.
\<close>

datatype log_event =
    RulesNotFound
  | RulesLoadError string
  | RuleCompileError entry exn
  | RulesLoaded nat
  | ApiTransportError string string
  | UnknownAction string
  | WatchStart int
  | WatchTimeout
  | RuleMatched string string "string option" "string option"
  | ActionSkippedNoItemId string
  | ActionCalled string string string "string option" int
  | ActionSkippedTTL string string "string option" int
  | WatchFileNotFound
  | WatchUnhandledError exn

text \<open>The \<^verbatim>\<open>_level\<close> detail of each record; \<^verbatim>\<open>write_log\<close> takes \<^verbatim>\<open>INFO\<close> when it is absent.\<close>

fun event_level :: "log_event \<Rightarrow> string" where
  "event_level RulesNotFound = ''ERROR''"
| "event_level (RulesLoadError _) = ''ERROR''"
| "event_level (RuleCompileError _ _) = ''ERROR''"
| "event_level (ApiTransportError _ _) = ''ERROR''"
| "event_level (UnknownAction _) = ''ERROR''"
| "event_level (ActionSkippedNoItemId _) = ''WARN''"
| "event_level WatchFileNotFound = ''ERROR''"
| "event_level (WatchUnhandledError _) = ''ERROR''"
| "event_level _ = ''INFO''"

text \<open>
  The state the functions share: the rate-limit table, the service log (oldest record
  first) and the URLs of the POST requests sent so far (oldest first).
\<close>

record world =
  recent_refresh :: cache
  service_log :: "log_event list"
  requests :: "string list"

definition write_log :: "log_event \<Rightarrow> world \<Rightarrow> world" where
  "write_log ev w = w\<lparr>service_log := service_log w @ [ev]\<rparr>"

section \<open>Rate limiter\<close>

text \<open>
  \<^verbatim>\<open>next((r["rate_limit_seconds"] for r in rules if r["name"] == rule_name), 300)\<close>
\<close>

fun ttl_for :: "rule list \<Rightarrow> string \<Rightarrow> int" where
  "ttl_for [] rule_name = 300"
| "ttl_for (r # rules) rule_name =
     (if name r = rule_name then rate_limit_seconds r else ttl_for rules rule_name)"

text \<open>The first loop of \<^verbatim>\<open>cleanup_cache\<close>: the keys whose entry has reached its window.\<close>

definition expired :: "real \<Rightarrow> rule list \<Rightarrow> cache \<Rightarrow> (string \<times> string) list" where
  "expired now rules recent =
     map fst (filter (\<lambda>(key, ts). now - ts \<ge> real_of_int (ttl_for rules (snd key))) recent)"

text \<open>The second loop: \<^verbatim>\<open>recent_refresh.pop(key, None)\<close> for every expired key.\<close>

definition cleanup_cache :: "real \<Rightarrow> rule list \<Rightarrow> cache \<Rightarrow> cache" where
  "cleanup_cache now rules recent =
     fold (\<lambda>key d. AList.delete key d) (expired now rules recent) recent"

definition can_fire :: "cache \<Rightarrow> string \<Rightarrow> rule \<Rightarrow> real \<Rightarrow> bool" where
  "can_fire recent item_id rule now =
     (case map_of recent (item_id, name rule) of
        None \<Rightarrow> True
      | Some last_ts \<Rightarrow> now - last_ts \<ge> real_of_int (rate_limit_seconds rule))"

definition mark_fired :: "cache \<Rightarrow> string \<Rightarrow> rule \<Rightarrow> real \<Rightarrow> cache" where
  "mark_fired recent item_id rule now = AList.update (item_id, name rule) now recent"

section \<open>Rule compiler\<close>

text \<open>
  Two library functions are parameters: \<^verbatim>\<open>re.compile\<close> on a string (\<open>None\<close> when it raises
  \<^verbatim>\<open>re.error\<close>) and \<^verbatim>\<open>int\<close> on a string (\<open>None\<close> when it raises \<^verbatim>\<open>ValueError\<close>).
\<close>

record pylib =
  re_compile :: "string \<Rightarrow> regex option"
  int_of_str :: "string \<Rightarrow> int option"

text \<open>\<^verbatim>\<open>int(x)\<close> on a real number truncates towards zero.\<close>

definition py_trunc :: "real \<Rightarrow> int" where
  "py_trunc x = (if x < 0 then - \<lfloor>- x\<rfloor> else \<lfloor>x\<rfloor>)"

fun py_int :: "pylib \<Rightarrow> json \<Rightarrow> exn + int" where
  "py_int lib (JInt i) = Inr i"
| "py_int lib (JBool b) = Inr (if b then 1 else 0)"
| "py_int lib (JFloat x) = Inr (py_trunc x)"
| "py_int lib (JStr s) = (case int_of_str lib s of None \<Rightarrow> Inl ValueError | Some i \<Rightarrow> Inr i)"
| "py_int lib JNull = Inl TypeError"
| "py_int lib (JList _) = Inl TypeError"
| "py_int lib (JDict _) = Inl TypeError"

text \<open>\<^verbatim>\<open>bool(x)\<close>: the truth value of a JSON value.\<close>

fun py_bool :: "json \<Rightarrow> bool" where
  "py_bool JNull = False"
| "py_bool (JBool b) = b"
| "py_bool (JInt i) = (i \<noteq> 0)"
| "py_bool (JFloat x) = (x \<noteq> 0)"
| "py_bool (JStr s) = (s \<noteq> [])"
| "py_bool (JList xs) = (xs \<noteq> [])"
| "py_bool (JDict kvs) = (kvs \<noteq> [])"

text \<open>
  The body of the \<^verbatim>\<open>try\<close> in the loop of \<^verbatim>\<open>load_rules\<close>: the dictionary display is
  evaluated key by key, and the first exception leaves it.
\<close>

definition compile_rule :: "pylib \<Rightarrow> entry \<Rightarrow> exn + rule" where
  "compile_rule lib r =
     (case e_name r of
        None \<Rightarrow> Inl KeyError
      | Some n \<Rightarrow>
        (case e_pattern r of
           None \<Rightarrow> Inl KeyError
         | Some p \<Rightarrow>
           (case re_compile lib p of
              None \<Rightarrow> Inl RegexError
            | Some rx \<Rightarrow>
              (case py_int lib (case e_rate_limit_seconds r of None \<Rightarrow> JInt 300 | Some v \<Rightarrow> v) of
                 Inl e \<Rightarrow> Inl e
               | Inr secs \<Rightarrow>
                 Inr \<lparr>name = n, pattern = rx,
                      action = (case e_action r of None \<Rightarrow> ''refresh_metadata'' | Some a \<Rightarrow> a),
                      rate_limit_seconds = secs,
                      level = (case e_level r of None \<Rightarrow> ''WARN'' | Some l \<Rightarrow> l)\<rparr>))))"

text \<open>The \<^verbatim>\<open>for r in rules\<close> loop, with the list \<^verbatim>\<open>compiled\<close> as accumulator.\<close>

fun compile_rules :: "pylib \<Rightarrow> entry list \<Rightarrow> rule list \<Rightarrow> world \<Rightarrow> rule list \<times> world" where
  "compile_rules lib [] compiled w = (compiled, w)"
| "compile_rules lib (r # rules) compiled w =
     (case compile_rule lib r of
        Inr c \<Rightarrow> compile_rules lib rules (compiled @ [c]) w
      | Inl e \<Rightarrow> compile_rules lib rules compiled (write_log (RuleCompileError r e) w))"

definition default_global :: global_cfg where
  "default_global = [(''stop_on_first_action'', JBool True), (''rule_reload_seconds'', JInt 60)]"

definition load_rules :: "pylib \<Rightarrow> source \<Rightarrow> world \<Rightarrow> (rule list \<times> global_cfg) \<times> world" where
  "load_rules lib src w =
     (case src of
        RulesFileNotFound \<Rightarrow> (([], default_global), write_log RulesNotFound w)
      | RulesFileUnreadable e \<Rightarrow> (([], default_global), write_log (RulesLoadError e) w)
      | RulesFile cfg \<Rightarrow>
          (let rules = (case cfg_rules cfg of None \<Rightarrow> [] | Some rs \<Rightarrow> rs);
               global = (case cfg_global cfg of None \<Rightarrow> default_global | Some g \<Rightarrow> g);
               (compiled, w1) = compile_rules lib rules [] w
           in ((compiled, global), write_log (RulesLoaded (length compiled)) w1)))"


section \<open>Action dispatcher\<close>

text \<open>
  What \<^verbatim>\<open>urllib.request.urlopen\<close> does with a request: it returns a response with a status
  code, raises \<^verbatim>\<open>HTTPError\<close> with a code, or raises another exception. The server is a
  parameter: a function of the number of requests sent before and of the URL. Building the
  request object from the URL, which starts with the constant \<^verbatim>\<open>EMBY_SERVER\<close>, does not
  raise.
\<close>

datatype urlopen_result = Response int | HTTPError int | TransportError string

type_synonym server = "nat \<Rightarrow> string \<Rightarrow> urlopen_result"

definition EMBY_SERVER :: string where
  "EMBY_SERVER = ''http://127.0.0.1:8096''"

definition EMBY_API_KEY :: string where
  "EMBY_API_KEY = ''api_key''"

definition refresh_url :: "string \<Rightarrow> string" where
  "refresh_url item_id =
     EMBY_SERVER @ ''/Items/'' @ item_id @ ''/Refresh'' @ ''?api_key='' @ EMBY_API_KEY
       @ ''&MetadataRefreshMode=FullRefresh&ReplaceAllMetadata=true&ReplaceAllImages=false''"

definition call_emby_refresh :: "server \<Rightarrow> string \<Rightarrow> world \<Rightarrow> int \<times> world" where
  "call_emby_refresh urlopen item_id w =
     (let url = refresh_url item_id;
          w1 = w\<lparr>requests := requests w @ [url]\<rparr>
      in case urlopen (length (requests w)) url of
           Response code \<Rightarrow> (code, w1)
         | HTTPError code \<Rightarrow> (code, w1)
         | TransportError e \<Rightarrow> (0, write_log (ApiTransportError item_id e) w1))"

definition perform_action ::
  "server \<Rightarrow> string \<Rightarrow> string \<Rightarrow> string option \<Rightarrow> world \<Rightarrow> int \<times> world" where
  "perform_action urlopen act item_id nm w =
     (if act = ''refresh_metadata'' then call_emby_refresh urlopen item_id w
      else (0, write_log (UnknownAction act) w))"

section \<open>Extraction patterns\<close>

text \<open>
  \<^verbatim>\<open>ITEMID_RE\<close> and \<^verbatim>\<open>NAME_RE\<close> are fixed patterns, so their matchers are written out.
  Lines are ASCII text here: \<open>is_space\<close> and \<open>is_digit\<close> are the ASCII members of the
  classes \<^verbatim>\<open>\s\<close> and \<^verbatim>\<open>\d\<close>.
\<close>

definition dquote :: char where
  "dquote = CHR 0x22"

definition is_space :: "char \<Rightarrow> bool" where
  "is_space c =
     (c \<in> set [CHR 0x09, CHR 0x0A, CHR 0x0B, CHR 0x0C, CHR 0x0D,
                CHR 0x1C, CHR 0x1D, CHR 0x1E, CHR 0x1F, CHR 0x20])"

definition is_digit :: "char \<Rightarrow> bool" where
  "is_digit c = (c \<in> set ''0123456789'')"

text \<open>The rest of the text after a literal, when the text starts with it.\<close>

fun strip_prefix :: "string \<Rightarrow> string \<Rightarrow> string option" where
  "strip_prefix [] s = Some s"
| "strip_prefix (p # ps) [] = None"
| "strip_prefix (p # ps) (c # cs) = (if p = c then strip_prefix ps cs else None)"

text \<open>
  \<^verbatim>\<open>"ItemId"\s*:\s*"?(?P<id>\d+)"?\<close> matched at the start of the text: the group \<^verbatim>\<open>id\<close>.
  The greedy \<^verbatim>\<open>\s*\<close> never gives a character back, since what follows it is not a space;
  the optional quote is taken when present, and giving it back cannot help, since a digit
  must follow.
\<close>

definition itemid_match :: "string \<Rightarrow> string option" where
  "itemid_match s =
     (case strip_prefix (dquote # ''ItemId'' @ [dquote]) s of
        None \<Rightarrow> None
      | Some s1 \<Rightarrow>
        (case dropWhile is_space s1 of
           [] \<Rightarrow> None
         | c # s2 \<Rightarrow>
           if c \<noteq> CHR '':'' then None
           else
             (let s3 = dropWhile is_space s2;
                  s4 = (case s3 of [] \<Rightarrow> s3 | q # s' \<Rightarrow> if q = dquote then s' else s3);
                  digits = takeWhile is_digit s4
              in if digits = [] then None else Some digits)))"

text \<open>\<^verbatim>\<open>ITEMID_RE.search(line)\<close>: the leftmost position where the pattern matches.\<close>

fun itemid_search :: "string \<Rightarrow> string option" where
  "itemid_search [] = itemid_match []"
| "itemid_search (c # cs) =
     (case itemid_match (c # cs) of Some i \<Rightarrow> Some i | None \<Rightarrow> itemid_search cs)"

text \<open>\<^verbatim>\<open>"Name"\s*:\s*"(?P<name>[^"]+)"\<close> matched at the start of the text.\<close>

definition name_match :: "string \<Rightarrow> string option" where
  "name_match s =
     (case strip_prefix (dquote # ''Name'' @ [dquote]) s of
        None \<Rightarrow> None
      | Some s1 \<Rightarrow>
        (case dropWhile is_space s1 of
           [] \<Rightarrow> None
         | c # s2 \<Rightarrow>
           if c \<noteq> CHR '':'' then None
           else
             (case dropWhile is_space s2 of
                [] \<Rightarrow> None
              | q # s3 \<Rightarrow>
                if q \<noteq> dquote then None
                else
                  (let nm = takeWhile (\<lambda>c. c \<noteq> dquote) s3
                   in if nm \<noteq> [] \<and> dropWhile (\<lambda>c. c \<noteq> dquote) s3 \<noteq> [] then Some nm
                      else None))))"

fun name_search :: "string \<Rightarrow> string option" where
  "name_search [] = name_match []"
| "name_search (c # cs) =
     (case name_match (c # cs) of Some n \<Rightarrow> Some n | None \<Rightarrow> name_search cs)"

section \<open>Tailer\<close>

text \<open>
  How one pass of the body of \<^verbatim>\<open>for rule in compiled_rules\<close> ends: it falls through to the
  next rule (also by \<^verbatim>\<open>continue\<close>), it executes \<^verbatim>\<open>return\<close>, or it raises.
\<close>

datatype flow = Next | Return | Raise exn

text \<open>
  The part of the loop body that is reached with a correlation id \<open>i\<close> (from
  \<^verbatim>\<open>if can_fire(...)\<close> to \<^verbatim>\<open>if stop_on_first_action: return\<close>). The parameters are the
  server, the flag \<^verbatim>\<open>stop_on_first_action\<close>, and the variables \<^verbatim>\<open>now\<close>, \<^verbatim>\<open>item_id\<close> and
  \<^verbatim>\<open>name\<close> of \<^verbatim>\<open>tail_file\<close>. The subscript \<^verbatim>\<open>recent_refresh[...]\<close> of the \<^verbatim>\<open>else\<close> branch
  raises \<^verbatim>\<open>KeyError\<close> on a missing key.
\<close>

definition handle_match ::
  "server \<Rightarrow> bool \<Rightarrow> real \<Rightarrow> string \<Rightarrow> string option \<Rightarrow> rule \<Rightarrow> world \<Rightarrow> flow \<times> world" where
  "handle_match urlopen stop_on_first_action now i nm rule w =
     (let (fl, w') =
            (if can_fire (recent_refresh w) i rule now then
               (let (status, w2) = perform_action urlopen (action rule) i nm w;
                    w3 = w2\<lparr>recent_refresh := mark_fired (recent_refresh w2) i rule now\<rparr>
                in (Next, write_log (ActionCalled (name rule) (action rule) i nm status) w3))
             else
               (let ttl = rate_limit_seconds rule
                in case map_of (recent_refresh w) (i, name rule) of
                     None \<Rightarrow> (Raise KeyError, w)
                   | Some ts \<Rightarrow>
                     (let wait_left = py_trunc (real_of_int ttl - (now - ts))
                      in (Next, write_log (ActionSkippedTTL (name rule) i nm wait_left) w))))
      in case fl of
           Next \<Rightarrow> (if stop_on_first_action then Return else Next, w')
         | _ \<Rightarrow> (fl, w'))"

text \<open>
  The body of the loop over the rules, for one rule and the current \<^verbatim>\<open>line\<close>. The test
  \<^verbatim>\<open>not item_id\<close> is true for \<^verbatim>\<open>None\<close> and for the empty string: the two branches that skip.
\<close>

definition apply_rule ::
  "server \<Rightarrow> bool \<Rightarrow> real \<Rightarrow> string \<Rightarrow> string option \<Rightarrow> string option \<Rightarrow> rule \<Rightarrow> world
     \<Rightarrow> flow \<times> world" where
  "apply_rule urlopen stop_on_first_action now line item_id nm rule w =
     (if \<not> pattern rule line then (Next, w)
      else
        (let w1 = write_log (RuleMatched (name rule) (level rule) item_id nm) w
         in case item_id of
              None \<Rightarrow> (Next, write_log (ActionSkippedNoItemId (name rule)) w1)
            | Some i \<Rightarrow>
              if i = [] then (Next, write_log (ActionSkippedNoItemId (name rule)) w1)
              else handle_match urlopen stop_on_first_action now i nm rule w1))"

text \<open>\<^verbatim>\<open>for rule in compiled_rules\<close>: the rules in order, until one returns or raises.\<close>

fun match_rules ::
  "server \<Rightarrow> bool \<Rightarrow> real \<Rightarrow> string \<Rightarrow> string option \<Rightarrow> string option \<Rightarrow> rule list \<Rightarrow> world
     \<Rightarrow> flow \<times> world" where
  "match_rules urlopen stop now line item_id nm [] w = (Next, w)"
| "match_rules urlopen stop now line item_id nm (rule # rules) w =
     (case apply_rule urlopen stop now line item_id nm rule w of
        (Next, w') \<Rightarrow> match_rules urlopen stop now line item_id nm rules w'
      | (fl, w') \<Rightarrow> (fl, w'))"

text \<open>
  One iteration of \<^verbatim>\<open>while True\<close> observes the clock and, when the deadline has not come,
  the result of \<^verbatim>\<open>f.readline()\<close>: a string (empty when no line is available) or an
  exception.
\<close>

record tick =
  t_now :: real
  t_read :: "exn + string"

datatype stop_reason = Timeout | StopOnAction | FileNotFound | Unhandled exn

text \<open>
  A session is reading, with its variables \<^verbatim>\<open>item_id\<close> and \<^verbatim>\<open>name\<close>, or it has stopped
  (\<^verbatim>\<open>tail_file\<close> has returned).
\<close>

datatype status = Reading "string option" "string option" | Stopped stop_reason

text \<open>
  The body of \<^verbatim>\<open>while True\<close>. The call \<^verbatim>\<open>cleanup_service_logs()\<close> works on the files of the
  service log only and is left out. An exception inside the \<^verbatim>\<open>try\<close> is caught by
  \<^verbatim>\<open>except Exception\<close>, which logs \<^verbatim>\<open>WatchUnhandledError\<close>; then \<^verbatim>\<open>tail_file\<close> returns.
\<close>

definition loop_body ::
  "server \<Rightarrow> bool \<Rightarrow> real \<Rightarrow> int \<Rightarrow> rule list \<Rightarrow> tick \<Rightarrow> string option \<Rightarrow> string option
     \<Rightarrow> world \<Rightarrow> status \<times> world" where
  "loop_body urlopen stop start timeout compiled_rules tk item_id nm w =
     (let now = t_now tk;
          w1 = w\<lparr>recent_refresh := cleanup_cache now compiled_rules (recent_refresh w)\<rparr>
      in if now - start \<ge> real_of_int timeout then (Stopped Timeout, write_log WatchTimeout w1)
         else
           (case t_read tk of
              Inl e \<Rightarrow> (Stopped (Unhandled e), write_log (WatchUnhandledError e) w1)
            | Inr line \<Rightarrow>
              if line = [] then (Reading item_id nm, w1)
              else
                (let item_id' = (case itemid_search line of Some i \<Rightarrow> Some i | None \<Rightarrow> item_id);
                     nm' = (case name_search line of Some n \<Rightarrow> Some n | None \<Rightarrow> nm)
                 in case match_rules urlopen stop now line item_id' nm' compiled_rules w1 of
                      (Next, w2) \<Rightarrow> (Reading item_id' nm', w2)
                    | (Return, w2) \<Rightarrow> (Stopped StopOnAction, w2)
                    | (Raise e, w2) \<Rightarrow>
                        (Stopped (Unhandled e), write_log (WatchUnhandledError e) w2))))"

text \<open>
  \<^verbatim>\<open>while True\<close> over the observations of the iterations, in order. When the observations
  run out before the loop has returned, the session is still reading.
\<close>

fun tail_loop ::
  "server \<Rightarrow> bool \<Rightarrow> real \<Rightarrow> int \<Rightarrow> rule list \<Rightarrow> tick list \<Rightarrow> string option \<Rightarrow> string option
     \<Rightarrow> world \<Rightarrow> status \<times> world" where
  "tail_loop urlopen stop start timeout compiled_rules [] item_id nm w = (Reading item_id nm, w)"
| "tail_loop urlopen stop start timeout compiled_rules (tk # ticks) item_id nm w =
     (case loop_body urlopen stop start timeout compiled_rules tk item_id nm w of
        (Reading item_id' nm', w') \<Rightarrow>
          tail_loop urlopen stop start timeout compiled_rules ticks item_id' nm' w'
      | (Stopped reason, w') \<Rightarrow> (Stopped reason, w'))"

text \<open>What \<^verbatim>\<open>open(filepath, ...)\<close> gives.\<close>

datatype opened = Opened | OpenNotFound | OpenFails exn

text \<open>
  What a session meets outside the program: the server, the first reading of the clock
  (\<^verbatim>\<open>start\<close>), the result of opening the file, and the observations of the iterations.
\<close>

record env =
  env_urlopen :: server
  env_start :: real
  env_open :: opened
  env_ticks :: "tick list"

text \<open>\<^verbatim>\<open>global_cfg.get("stop_on_first_action", True)\<close> under \<^verbatim>\<open>bool\<close>.\<close>

definition stop_flag :: "global_cfg \<Rightarrow> bool" where
  "stop_flag global =
     py_bool (case map_of global ''stop_on_first_action'' of None \<Rightarrow> JBool True | Some v \<Rightarrow> v)"

definition tail_file :: "env \<Rightarrow> int \<Rightarrow> rule list \<Rightarrow> global_cfg \<Rightarrow> world \<Rightarrow> status \<times> world" where
  "tail_file e timeout compiled_rules global w =
     (let w0 = write_log (WatchStart timeout) w;
          start = env_start e;
          stop_on_first_action = stop_flag global
      in case env_open e of
           OpenNotFound \<Rightarrow> (Stopped FileNotFound, write_log WatchFileNotFound w0)
         | OpenFails ex \<Rightarrow> (Stopped (Unhandled ex), write_log (WatchUnhandledError ex) w0)
         | Opened \<Rightarrow>
             tail_loop (env_urlopen e) stop_on_first_action start timeout compiled_rules
               (env_ticks e) None None w0)"

text \<open>The actions a log records as called: one \<^verbatim>\<open>ActionCalled\<close> record for each dispatch.\<close>

fun is_action_called :: "log_event \<Rightarrow> bool" where
  "is_action_called (ActionCalled _ _ _ _ _) = True"
| "is_action_called _ = False"

definition fired :: "world \<Rightarrow> log_event list" where
  "fired w = filter is_action_called (service_log w)"

section \<open>Concrete inputs\<close>

text \<open>
  The pattern of a rule made of a literal text: \<^verbatim>\<open>search\<close> succeeds when the literal occurs
  in the line.
\<close>

fun contains :: "string \<Rightarrow> string \<Rightarrow> bool" where
  "contains lit [] = (lit = [])"
| "contains lit (c # cs) = (strip_prefix lit (c # cs) \<noteq> None \<or> contains lit cs)"

definition rule_A :: rule where
  "rule_A = \<lparr>name = ''A'', pattern = contains ''ERROR'', action = ''refresh_metadata'',
             rate_limit_seconds = 10, level = ''WARN''\<rparr>"

definition rule_B :: rule where
  "rule_B = \<lparr>name = ''B'', pattern = contains ''occurred'', action = ''refresh_metadata'',
             rate_limit_seconds = 10, level = ''WARN''\<rparr>"

definition rule_Z :: rule where
  "rule_Z = \<lparr>name = ''Z'', pattern = contains ''ERROR'', action = ''refresh_metadata'',
             rate_limit_seconds = 0, level = ''WARN''\<rparr>"

definition world0 :: world where
  "world0 = \<lparr>recent_refresh = [], service_log = [], requests = []\<rparr>"

text \<open>
  A library for the examples: \<^verbatim>\<open>re.compile\<close> fails on an unbalanced parenthesis and gives
  the literal search otherwise; \<^verbatim>\<open>int\<close> reads the text \<^verbatim>\<open>15\<close> and rejects the others.
\<close>

definition lib0 :: pylib where
  "lib0 = \<lparr>re_compile = (\<lambda>p. if p = ''('' then None else Some (contains p)),
            int_of_str = (\<lambda>s. if s = ''15'' then Some 15 else None)\<rparr>"



text \<open>
  A session: the file gives a line with an item id, then nothing, then a line that both rules
  \<open>rule_A\<close> and \<open>rule_B\<close> match; the clock starts at 100, and the server does not answer.
\<close>

definition line_id :: string where
  "line_id = [CHR ''{'', dquote] @ ''ItemId'' @ [dquote, CHR '':'', dquote] @ ''42''
               @ [dquote, CHR ''}'', CHR 0x0A]"

definition line_err :: string where
  "line_err = ''ERROR occurred'' @ [CHR 0x0A]"

definition tick_id :: tick where
  "tick_id = \<lparr>t_now = 100, t_read = Inr line_id\<rparr>"

definition tick_idle :: tick where
  "tick_idle = \<lparr>t_now = 101, t_read = Inr []\<rparr>"

definition tick_err :: tick where
  "tick_err = \<lparr>t_now = 102, t_read = Inr line_err\<rparr>"

definition tick_late :: tick where
  "tick_late = \<lparr>t_now = 105, t_read = Inr line_err\<rparr>"

definition env0 :: env where
  "env0 = \<lparr>env_urlopen = (\<lambda>n url. TransportError ''timed out''), env_start = 100,
            env_open = Opened, env_ticks = [tick_id, tick_idle, tick_err, tick_late]\<rparr>"

text \<open>A table in which rule \<open>A\<close> fired for item 42 at time 99.\<close>

definition world_A :: world where
  "world_A = \<lparr>recent_refresh = [((''42'', ''A''), 99)], service_log = [], requests = []\<rparr>"




section \<open>Properties of the rate limiter\<close>

lemma map_of_mark_fired:
  "map_of (mark_fired recent c r t) k = (if k = (c, name r) then Some t else map_of recent k)"
  by (simp add: mark_fired_def update_conv')

lemma distinct_mark_fired:
  "distinct (map fst recent) \<Longrightarrow> distinct (map fst (mark_fired recent c r t))"
  by (simp add: mark_fired_def distinct_update)

lemma ttl_for_find:
  "ttl_for rules n =
     (case find (\<lambda>r. name r = n) rules of None \<Rightarrow> 300 | Some r \<Rightarrow> rate_limit_seconds r)"
  by (induction rules) auto

lemma fold_delete_filter:
  "fold (\<lambda>key d. AList.delete key d) ks d = filter (\<lambda>p. fst p \<notin> set ks) d"
proof (induction ks arbitrary: d)
  case Nil
  then show ?case by simp
next
  case (Cons k ks)
  have "filter (\<lambda>p. fst p \<notin> set ks) (AList.delete k d) = filter (\<lambda>p. fst p \<notin> set (k # ks)) d"
    by (auto simp: AList.delete_eq intro: filter_cong)
  with Cons show ?case by simp
qed

lemma expired_iff:
  assumes "distinct (map fst recent)" and "(key, ts) \<in> set recent"
  shows "key \<in> set (expired now rules recent)
           \<longleftrightarrow> now - ts \<ge> real_of_int (ttl_for rules (snd key))"
proof
  assume "key \<in> set (expired now rules recent)"
  then obtain ts' where in': "(key, ts') \<in> set recent"
    and ex: "now - ts' \<ge> real_of_int (ttl_for rules (snd key))"
    by (auto simp: expired_def)
  from assms in' have "ts' = ts"
    by (meson eq_key_imp_eq_value)
  with ex show "now - ts \<ge> real_of_int (ttl_for rules (snd key))" by simp
next
  assume "now - ts \<ge> real_of_int (ttl_for rules (snd key))"
  with assms(2) show "key \<in> set (expired now rules recent)"
    by (force simp: expired_def)
qed

lemma cleanup_cache_filter:
  assumes "distinct (map fst recent)"
  shows "cleanup_cache now rules recent =
           filter (\<lambda>(key, ts). now - ts < real_of_int (ttl_for rules (snd key))) recent"
  unfolding cleanup_cache_def fold_delete_filter
proof (rule filter_cong[OF refl])
  fix p assume "p \<in> set recent"
  then have "(fst p, snd p) \<in> set recent" by simp
  from expired_iff[OF assms this, of now rules]
  show "(fst p \<notin> set (expired now rules recent))
          = (case p of (key, ts) \<Rightarrow> now - ts < real_of_int (ttl_for rules (snd key)))"
    by (cases p) auto
qed

text \<open>Both operations on the table keep its keys distinct.\<close>

lemma distinct_cleanup_cache:
  "distinct (map fst recent) \<Longrightarrow> distinct (map fst (cleanup_cache now rules recent))"
  by (simp add: cleanup_cache_filter distinct_map_filter)

text \<open>
  C2, as amended. After \<open>mark_fired recent c r t\<close>, \<open>can_fire\<close> for the same key at time
  \<open>t'\<close> holds exactly when \<open>t' - t\<close> has reached the window of \<open>r\<close>: it is true at
  \<open>t + rate_limit_seconds r\<close> and at no earlier time. When the window is positive it is
  false at \<open>t\<close> itself. With no entry for the key, \<open>can_fire\<close> is true.
\<close>

theorem can_fire_after_mark_fired:
  "(can_fire (mark_fired recent c r t) c r t' \<longleftrightarrow> t' - t \<ge> real_of_int (rate_limit_seconds r))
   \<and> (0 < rate_limit_seconds r \<longrightarrow> \<not> can_fire (mark_fired recent c r t) c r t)
   \<and> can_fire (mark_fired recent c r t) c r (t + real_of_int (rate_limit_seconds r))
   \<and> (map_of recent (c, name r) = None \<longrightarrow> can_fire recent c r t')"
  by (auto simp: can_fire_def map_of_mark_fired)

theorem can_fire_after_mark_fired_witness:
  "0 < rate_limit_seconds rule_A
   \<and> \<not> can_fire (mark_fired [] ''42'' rule_A 100) ''42'' rule_A 100
   \<and> \<not> can_fire (mark_fired [] ''42'' rule_A 100) ''42'' rule_A 109
   \<and> can_fire (mark_fired [] ''42'' rule_A 100) ''42'' rule_A 110
   \<and> map_of ([] :: cache) (''42'', name rule_A) = None
   \<and> can_fire [] ''42'' rule_A 100"
  using can_fire_after_mark_fired [of "[]" "''42''" rule_A 100 109]
        can_fire_after_mark_fired [of "[]" "''42''" rule_A 100 100]
  by (simp add: rule_A_def)

text \<open>
  C2 as stated fails for a rule whose window is zero: right after \<open>mark_fired\<close> at time
  100, \<open>can_fire\<close> at time 100 is true.
\<close>

theorem can_fire_zero_window_counterexample:
  "can_fire (mark_fired [] ''42'' rule_Z 100) ''42'' rule_Z 100"
  by (simp add: can_fire_def mark_fired_def rule_Z_def)

text \<open>
  C3. On a table with distinct keys, \<open>cleanup_cache\<close> returns exactly the entries, in
  their order and unchanged, whose elapsed time \<open>now - ts\<close> is below the window of the
  first rule of the active list that has the entry's rule name, or below 300 when no rule
  has that name. So an entry is removed if and only if its elapsed time has reached that
  window, and nothing is added or modified.
\<close>

theorem cleanup_cache_removes_exactly_expired:
  assumes "distinct (map fst recent)"
  shows "cleanup_cache now rules recent =
           filter (\<lambda>(key, ts). now - ts <
                     real_of_int (case find (\<lambda>r. name r = snd key) rules of
                                    None \<Rightarrow> 300
                                  | Some r \<Rightarrow> rate_limit_seconds r))
                  recent"
  using cleanup_cache_filter[OF assms, of now rules] by (simp add: ttl_for_find)

theorem cleanup_cache_removes_exactly_expired_witness:
  "distinct (map fst [((''42'', ''A''), 100::real), ((''7'', ''A''), 95), ((''7'', ''gone''), 0)])
   \<and> cleanup_cache 105 [rule_A] [((''42'', ''A''), 100), ((''7'', ''A''), 95), ((''7'', ''gone''), 0)]
       = [((''42'', ''A''), 100), ((''7'', ''gone''), 0)]"
  using cleanup_cache_removes_exactly_expired
          [of "[((''42'', ''A''), 100), ((''7'', ''A''), 95), ((''7'', ''gone''), 0)]" 105 "[rule_A]"]
  by (simp add: rule_A_def)

section \<open>Properties of the rule compiler\<close>










section \<open>Properties of the rule source\<close>

text \<open>
  C6. When the rule file is absent, or opening or parsing it raises, \<open>load_rules\<close> returns
  the empty rule list and the default global settings (\<^verbatim>\<open>stop_on_first_action\<close> true, the
  reload interval 60, stored under the key \<^verbatim>\<open>rule_reload_seconds\<close>), and the failure is
  written to the log at level \<^verbatim>\<open>ERROR\<close>.
\<close>

theorem load_rules_absent_or_unparseable:
  "load_rules lib RulesFileNotFound w = (([], default_global), write_log RulesNotFound w)
   \<and> load_rules lib (RulesFileUnreadable e) w = (([], default_global), write_log (RulesLoadError e) w)
   \<and> stop_flag default_global
   \<and> map_of default_global ''stop_on_first_action'' = Some (JBool True)
   \<and> map_of default_global ''rule_reload_seconds'' = Some (JInt 60)
   \<and> length default_global = 2
   \<and> event_level RulesNotFound = ''ERROR''
   \<and> event_level (RulesLoadError e) = ''ERROR''"
  by (simp add: load_rules_def default_global_def stop_flag_def)

theorem load_rules_absent_or_unparseable_witness:
  "load_rules lib0 RulesFileNotFound world0
     = (([], [(''stop_on_first_action'', JBool True), (''rule_reload_seconds'', JInt 60)]),
        \<lparr>recent_refresh = [], service_log = [RulesNotFound], requests = []\<rparr>)
   \<and> load_rules lib0 (RulesFileUnreadable ''Expecting value: line 1 column 1 (char 0)'') world0
     = (([], [(''stop_on_first_action'', JBool True), (''rule_reload_seconds'', JInt 60)]),
        \<lparr>recent_refresh = [],
          service_log = [RulesLoadError ''Expecting value: line 1 column 1 (char 0)''],
          requests = []\<rparr>)"
  using load_rules_absent_or_unparseable
          [of lib0 world0 "''Expecting value: line 1 column 1 (char 0)''"]
  by (simp add: default_global_def write_log_def world0_def)

section \<open>Properties of the action dispatcher\<close>

text \<open>
  C7. \<open>perform_action\<close> returns a status for every action identifier, correlation id and
  display name. An unknown identifier is logged as \<^verbatim>\<open>UnknownAction\<close> at level \<^verbatim>\<open>ERROR\<close>,
  sends no request and gives 0. For \<^verbatim>\<open>refresh_metadata\<close> one request is sent: a response or
  an HTTP error gives its status code, any other exception is logged as
  \<^verbatim>\<open>ApiTransportError\<close> and gives 0.
\<close>

theorem perform_action_outcome:
  "perform_action urlopen act i nm w =
     (if act \<noteq> ''refresh_metadata'' then (0, write_log (UnknownAction act) w)
      else
        (case urlopen (length (requests w)) (refresh_url i) of
           Response code \<Rightarrow> (code, w\<lparr>requests := requests w @ [refresh_url i]\<rparr>)
         | HTTPError code \<Rightarrow> (code, w\<lparr>requests := requests w @ [refresh_url i]\<rparr>)
         | TransportError e \<Rightarrow>
             (0, write_log (ApiTransportError i e) (w\<lparr>requests := requests w @ [refresh_url i]\<rparr>))))
   \<and> requests (write_log (UnknownAction act) w) = requests w
   \<and> event_level (UnknownAction act) = ''ERROR''
   \<and> event_level (ApiTransportError i e) = ''ERROR''"
  by (simp add: perform_action_def call_emby_refresh_def write_log_def Let_def)

theorem perform_action_outcome_witness:
  "perform_action (\<lambda>n url. TransportError ''timed out'') ''refresh_metadata'' ''42'' None world0
     = (0, \<lparr>recent_refresh = [], service_log = [ApiTransportError ''42'' ''timed out''],
            requests = [refresh_url ''42'']\<rparr>)
   \<and> fst (perform_action (\<lambda>n url. HTTPError 404) ''refresh_metadata'' ''42'' None world0) = 404
   \<and> fst (perform_action (\<lambda>n url. Response 204) ''refresh_metadata'' ''42'' None world0) = 204
   \<and> perform_action (\<lambda>n url. Response 204) ''delete_item'' ''42'' None world0
     = (0, \<lparr>recent_refresh = [], service_log = [UnknownAction ''delete_item''], requests = []\<rparr>)"
  using perform_action_outcome [of "\<lambda>n url. TransportError ''timed out''" "''refresh_metadata''" "''42''" None world0]
        perform_action_outcome [of "\<lambda>n url. HTTPError 404" "''refresh_metadata''" "''42''" None world0]
        perform_action_outcome [of "\<lambda>n url. Response 204" "''refresh_metadata''" "''42''" None world0]
        perform_action_outcome [of "\<lambda>n url. Response 204" "''delete_item''" "''42''" None world0]
  by (simp add: world0_def write_log_def)

section \<open>Properties of the tailer\<close>



lemma perform_action_recent [simp]:
  "recent_refresh (snd (perform_action urlopen act i nm w)) = recent_refresh w"
  by (simp add: perform_action_def call_emby_refresh_def write_log_def Let_def
           split: urlopen_result.splits)



lemma handle_match_fire:
  assumes "can_fire (recent_refresh w) i r now"
  shows "handle_match urlopen stop now i nm r w =
           (if stop then Return else Next,
            write_log (ActionCalled (name r) (action r) i nm (fst (perform_action urlopen (action r) i nm w)))
              ((snd (perform_action urlopen (action r) i nm w))
                 \<lparr>recent_refresh := mark_fired (recent_refresh w) i r now\<rparr>))"
proof -
  obtain status w2 where p: "perform_action urlopen (action r) i nm w = (status, w2)"
    by (cases "perform_action urlopen (action r) i nm w")
  from perform_action_recent[of urlopen "action r" i nm w] p
  have "recent_refresh w2 = recent_refresh w" by simp
  with assms p show ?thesis by (simp add: handle_match_def Let_def)
qed






lemma apply_rule_known:
  "pattern r line \<Longrightarrow> i \<noteq> [] \<Longrightarrow>
   apply_rule urlopen stop now line (Some i) nm r w =
     handle_match urlopen stop now i nm r (write_log (RuleMatched (name r) (level r) (Some i) nm) w)"
  by (simp add: apply_rule_def Let_def)













text \<open>The equations that evaluate a session on concrete inputs.\<close>

lemmas ex_defs = env0_def tick_id_def tick_idle_def tick_err_def tick_late_def line_id_def line_err_def
  world_A_def world0_def rule_A_def rule_B_def dquote_def
lemmas run_defs = tail_file_def stop_flag_def default_global_def loop_body_def
     write_log_def cleanup_cache_def expired_def itemid_match_def name_match_def is_space_def is_digit_def
     apply_rule_def handle_match_def can_fire_def mark_fired_def perform_action_def call_emby_refresh_def py_trunc_def fired_def



text \<open>
  C10. When a rule matches, the correlation id is known and \<open>can_fire\<close> permits the pair
  at time \<open>now\<close>, the body of the rule loop dispatches the action and sets the table
  entry of the pair to \<open>now\<close>, whatever the server answers and whatever the action
  identifier is: the table becomes \<open>mark_fired\<close> of the old one, the last log record is
  \<^verbatim>\<open>ActionCalled\<close> with the status of the dispatch, and afterwards \<open>can_fire\<close> for the pair
  holds only from \<open>now + rate_limit_seconds\<close> on.
\<close>

theorem mark_fired_whatever_the_outcome:
  assumes "pattern r line" "i \<noteq> []" "can_fire (recent_refresh w) i r now"
  shows "recent_refresh (snd (apply_rule urlopen stop now line (Some i) nm r w))
           = mark_fired (recent_refresh w) i r now
         \<and> map_of (recent_refresh (snd (apply_rule urlopen stop now line (Some i) nm r w)))
             (i, name r) = Some now
         \<and> (can_fire (recent_refresh (snd (apply_rule urlopen stop now line (Some i) nm r w))) i r t'
              \<longleftrightarrow> real_of_int (rate_limit_seconds r) \<le> t' - now)
         \<and> last (service_log (snd (apply_rule urlopen stop now line (Some i) nm r w)))
             = ActionCalled (name r) (action r) i nm
                 (fst (perform_action urlopen (action r) i nm
                         (write_log (RuleMatched (name r) (level r) (Some i) nm) w)))"
proof -
  let ?w1 = "write_log (RuleMatched (name r) (level r) (Some i) nm) w"
  have cf: "can_fire (recent_refresh ?w1) i r now"
    using assms(3) by (simp add: write_log_def)
  have r1: "recent_refresh ?w1 = recent_refresh w" by (simp add: write_log_def)
  have "recent_refresh (snd (apply_rule urlopen stop now line (Some i) nm r w))
          = mark_fired (recent_refresh w) i r now"
    by (simp add: apply_rule_known[OF assms(1,2)] handle_match_fire[OF cf] r1)
       (simp add: write_log_def)
  moreover have "last (service_log (snd (apply_rule urlopen stop now line (Some i) nm r w)))
             = ActionCalled (name r) (action r) i nm (fst (perform_action urlopen (action r) i nm ?w1))"
    by (simp add: apply_rule_known[OF assms(1,2)] handle_match_fire[OF cf])
       (simp add: write_log_def)
  ultimately show ?thesis
    by (simp add: map_of_mark_fired can_fire_def)
qed

theorem mark_fired_whatever_the_outcome_witness:
  "pattern rule_A line_err \<and> ''42'' \<noteq> [] \<and> can_fire (recent_refresh world0) ''42'' rule_A 102
   \<and> fst (perform_action (\<lambda>n url. TransportError ''timed out'') (action rule_A) ''42'' None
            (write_log (RuleMatched (name rule_A) (level rule_A) (Some ''42'') None) world0)) = 0
   \<and> recent_refresh (snd (apply_rule (\<lambda>n url. TransportError ''timed out'') False 102 line_err
                             (Some ''42'') None rule_A world0))
       = [((''42'', ''A''), 102)]
   \<and> \<not> can_fire (recent_refresh (snd (apply_rule (\<lambda>n url. TransportError ''timed out'') False 102
                                        line_err (Some ''42'') None rule_A world0)))
          ''42'' rule_A 111"
  using mark_fired_whatever_the_outcome
          [of rule_A line_err "''42''" world0 102 "\<lambda>n url. TransportError ''timed out''" False None 111]
  by (simp add: ex_defs run_defs)










end
